theory Spec2Isabelle
  imports Main "HOL-Library.Sublist"
begin

section \<open>Citation objects of cl/citations/models.py\<close>

text \<open>
  The classes of \<^verbatim>\<open>cl/citations/models.py\<close> are plain Python objects: a base class
  \<^verbatim>\<open>Citation\<close> holding fourteen attributes, and four subclasses that add attributes
  and override \<^verbatim>\<open>as_regex\<close> and \<^verbatim>\<open>as_html\<close>. Strings are lists of characters, Python's
  \<^verbatim>\<open>None\<close> is \<open>None\<close> of an option type, and a raised exception is the left injection
  of a sum type.
\<close>

subsection \<open>Python values, errors and string formatting\<close>

datatype py_error = TypeError | KeyError | IndexError | OtherError string

abbreviation bs :: char where "bs \<equiv> CHR 0x5C"
abbreviation dq :: char where "dq \<equiv> CHR 0x22"

definition digit_char :: "nat \<Rightarrow> char" where
  "digit_char d = ''0123456789'' ! d"

text \<open>The decimal rendering of \<^verbatim>\<open>"%d" % n\<close> and \<^verbatim>\<open>str(n)\<close> for an integer.\<close>

fun str_nat :: "nat \<Rightarrow> string" where
  "str_nat n = (if n < 10 then [digit_char n] else str_nat (n div 10) @ [digit_char (n mod 10)])"

declare str_nat.simps [simp del]

definition str_int :: "int \<Rightarrow> string" where
  "str_int i = (if i < 0 then CHR ''-'' # str_nat (nat (- i)) else str_nat (nat i))"

text \<open>\<^verbatim>\<open>"%s" % x\<close> and \<^verbatim>\<open>str(x)\<close> for an attribute that is a string or None, and for
  one that is an integer or None.\<close>

definition str_of_str :: "string option \<Rightarrow> string" where
  "str_of_str x = (case x of None \<Rightarrow> ''None'' | Some s \<Rightarrow> s)"

definition str_of_int :: "int option \<Rightarrow> string" where
  "str_of_int x = (case x of None \<Rightarrow> ''None'' | Some i \<Rightarrow> str_int i)"

text \<open>\<^verbatim>\<open>"%d" % x\<close> raises TypeError when \<^verbatim>\<open>x\<close> is None.\<close>

definition fmt_d :: "int option \<Rightarrow> py_error + string" where
  "fmt_d x = (case x of None \<Rightarrow> Inl TypeError | Some i \<Rightarrow> Inr (str_int i))"

text \<open>Python truthiness, as tested by \<^verbatim>\<open>if self.match_url:\<close>, \<^verbatim>\<open>if self.page:\<close> and
  \<^verbatim>\<open>if self.volume:\<close>: None, the empty string and zero are false.\<close>

definition truthy_str :: "string option \<Rightarrow> bool" where
  "truthy_str x = (case x of None \<Rightarrow> False | Some s \<Rightarrow> s \<noteq> [])"

definition truthy_int :: "int option \<Rightarrow> bool" where
  "truthy_int x = (case x of None \<Rightarrow> False | Some i \<Rightarrow> i \<noteq> 0)"

subsection \<open>The base class and its constructor\<close>

record citation =
  reporter :: "string option"
  volume :: "int option"
  page :: "string option"
  canonical_reporter :: "string option"
  lookup_index :: "int option"
  extra :: "string option"
  defendant :: "string option"
  plaintiff :: "string option"
  court :: "string option"
  year :: "int option"
  reporter_found :: "string option"
  reporter_index :: "int option"
  match_url :: "string option"
  match_id :: "int option"

text \<open>The keyword arguments of \<^verbatim>\<open>Citation.__init__\<close>; every one defaults to None.\<close>

record kwargs =
  kw_canonical_reporter :: "string option"
  kw_lookup_index :: "int option"
  kw_extra :: "string option"
  kw_defendant :: "string option"
  kw_plaintiff :: "string option"
  kw_court :: "string option"
  kw_year :: "int option"
  kw_match_url :: "string option"
  kw_match_id :: "int option"
  kw_reporter_found :: "string option"
  kw_reporter_index :: "int option"

definition no_kwargs :: kwargs where
  "no_kwargs = \<lparr> kw_canonical_reporter = None, kw_lookup_index = None, kw_extra = None,
     kw_defendant = None, kw_plaintiff = None, kw_court = None, kw_year = None,
     kw_match_url = None, kw_match_id = None, kw_reporter_found = None,
     kw_reporter_index = None \<rparr>"

definition Citation_init :: "string option \<Rightarrow> string option \<Rightarrow> int option \<Rightarrow> kwargs \<Rightarrow> citation" where
  "Citation_init rep pg vol kw =
     \<lparr> reporter = rep, volume = vol, page = pg,
       canonical_reporter = kw_canonical_reporter kw, lookup_index = kw_lookup_index kw,
       extra = kw_extra kw, defendant = kw_defendant kw, plaintiff = kw_plaintiff kw,
       court = kw_court kw, year = kw_year kw,
       reporter_found = kw_reporter_found kw, reporter_index = kw_reporter_index kw,
       match_url = kw_match_url kw, match_id = kw_match_id kw \<rparr>"

definition equality_attributes :: "string list" where
  "equality_attributes = [''reporter'', ''volume'', ''page'', ''canonical_reporter'', ''lookup_index'']"

subsection \<open>The four subclasses\<close>

text \<open>
  \<^verbatim>\<open>FullCitation\<close> adds nothing, \<^verbatim>\<open>ShortformCitation\<close> and \<^verbatim>\<open>SupraCitation\<close> add
  \<^verbatim>\<open>antecedent_guess\<close>, \<^verbatim>\<open>IdCitation\<close> adds \<^verbatim>\<open>id_token\<close>, \<^verbatim>\<open>after_tokens\<close> (both None
  by default) and \<^verbatim>\<open>should_linkify\<close>.
\<close>

datatype cite =
    FullCitation citation
  | ShortformCitation citation string
  | SupraCitation citation string
  | IdCitation citation "string option" "string list option" bool

fun attrs :: "cite \<Rightarrow> citation" where
  "attrs (FullCitation a) = a"
| "attrs (ShortformCitation a g) = a"
| "attrs (SupraCitation a g) = a"
| "attrs (IdCitation a t ts l) = a"

definition FullCitation_init :: "string option \<Rightarrow> string option \<Rightarrow> int option \<Rightarrow> kwargs \<Rightarrow> cite" where
  "FullCitation_init rep pg vol kw = FullCitation (Citation_init rep pg vol kw)"


definition SupraCitation_init :: "string \<Rightarrow> string option \<Rightarrow> int option \<Rightarrow> kwargs \<Rightarrow> cite" where
  "SupraCitation_init guess pg vol kw = SupraCitation (Citation_init None pg vol kw) guess"

definition IdCitation_init :: "string option \<Rightarrow> string list option \<Rightarrow> bool \<Rightarrow> cite" where
  "IdCitation_init tok after linkify = IdCitation (Citation_init None None None no_kwargs) tok after linkify"

subsection \<open>Methods of the base class\<close>

text \<open>\<^verbatim>\<open>base_citation\<close>: \<^verbatim>\<open>"%d %s %s" % (self.volume, self.reporter, self.page)\<close>.
  No subclass overrides it.\<close>

definition base_citation :: "cite \<Rightarrow> py_error + string" where
  "base_citation c =
     (case fmt_d (volume (attrs c)) of
        Inl e \<Rightarrow> Inl e
      | Inr v \<Rightarrow> Inr (v @ '' '' @ str_of_str (reporter (attrs c)) @ '' '' @ str_of_str (page (attrs c))))"

text \<open>\<^verbatim>\<open>str(getattr(self, attr, None))\<close> for the attributes every citation object has.
  A name that is no attribute yields the default None.\<close>

definition getattr_str :: "citation \<Rightarrow> string \<Rightarrow> string" where
  "getattr_str a name =
     (if name = ''reporter'' then str_of_str (reporter a)
      else if name = ''volume'' then str_of_int (volume a)
      else if name = ''page'' then str_of_str (page a)
      else if name = ''canonical_reporter'' then str_of_str (canonical_reporter a)
      else if name = ''lookup_index'' then str_of_int (lookup_index a)
      else if name = ''extra'' then str_of_str (extra a)
      else if name = ''defendant'' then str_of_str (defendant a)
      else if name = ''plaintiff'' then str_of_str (plaintiff a)
      else if name = ''court'' then str_of_str (court a)
      else if name = ''year'' then str_of_int (year a)
      else if name = ''reporter_found'' then str_of_str (reporter_found a)
      else if name = ''reporter_index'' then str_of_int (reporter_index a)
      else if name = ''match_url'' then str_of_str (match_url a)
      else if name = ''match_id'' then str_of_int (match_id a)
      else ''None'')"

text \<open>\<^verbatim>\<open>fuzzy_hash\<close> concatenates the renderings of the equality attributes, with nothing
  between them, and hashes the result. Python's built-in \<^verbatim>\<open>hash\<close> is the parameter \<open>h\<close>.\<close>

definition fuzzy_key :: "cite \<Rightarrow> string" where
  "fuzzy_key c = foldl (\<lambda>s attr. s @ getattr_str (attrs c) attr) [] equality_attributes"

definition fuzzy_hash :: "(string \<Rightarrow> 'h) \<Rightarrow> cite \<Rightarrow> 'h" where
  "fuzzy_hash h c = h (fuzzy_key c)"

definition fuzzy_eq :: "(string \<Rightarrow> 'h) \<Rightarrow> cite \<Rightarrow> cite \<Rightarrow> bool" where
  "fuzzy_eq h c d = (fuzzy_hash h c = fuzzy_hash h d)"

subsection \<open>Conversion to the persisted model\<close>

datatype pyval = PyNone | PyStr string | PyInt int | PyBool bool | PyStrList "string list"

definition of_str :: "string option \<Rightarrow> pyval" where
  "of_str x = (case x of None \<Rightarrow> PyNone | Some s \<Rightarrow> PyStr s)"

definition of_int :: "int option \<Rightarrow> pyval" where
  "of_int x = (case x of None \<Rightarrow> PyNone | Some i \<Rightarrow> PyInt i)"

definition of_strs :: "string list option \<Rightarrow> pyval" where
  "of_strs x = (case x of None \<Rightarrow> PyNone | Some ss \<Rightarrow> PyStrList ss)"

text \<open>The items of \<^verbatim>\<open>self.__dict__\<close>, in the order the constructors assign them.\<close>

definition base_items :: "citation \<Rightarrow> (string \<times> pyval) list" where
  "base_items a =
     [(''reporter'', of_str (reporter a)), (''volume'', of_int (volume a)),
      (''page'', of_str (page a)),
      (''canonical_reporter'', of_str (canonical_reporter a)),
      (''lookup_index'', of_int (lookup_index a)),
      (''extra'', of_str (extra a)), (''defendant'', of_str (defendant a)),
      (''plaintiff'', of_str (plaintiff a)), (''court'', of_str (court a)),
      (''year'', of_int (year a)),
      (''reporter_found'', of_str (reporter_found a)),
      (''reporter_index'', of_int (reporter_index a)),
      (''match_url'', of_str (match_url a)), (''match_id'', of_int (match_id a)),
      (''equality_attributes'', PyStrList equality_attributes)]"

fun dict_items :: "cite \<Rightarrow> (string \<times> pyval) list" where
  "dict_items (FullCitation a) = base_items a"
| "dict_items (ShortformCitation a g) = base_items a @ [(''antecedent_guess'', PyStr g)]"
| "dict_items (SupraCitation a g) = base_items a @ [(''antecedent_guess'', PyStr g)]"
| "dict_items (IdCitation a t ts l) =
     base_items a @ [(''id_token'', of_str t), (''after_tokens'', of_strs ts),
                     (''should_linkify'', PyBool l)]"

text \<open>Python list indexing: a negative index counts from the end, an index out of range
  raises IndexError and None as an index raises TypeError.\<close>

definition list_getitem :: "'a list \<Rightarrow> int option \<Rightarrow> py_error + 'a" where
  "list_getitem xs idx =
     (case idx of
        None \<Rightarrow> Inl TypeError
      | Some i \<Rightarrow>
          if 0 \<le> i \<and> i < int (length xs) then Inr (xs ! nat i)
          else if i < 0 \<and> - int (length xs) \<le> i then Inr (xs ! nat (int (length xs) + i))
          else Inl IndexError)"

text \<open>
  The object \<^verbatim>\<open>to_model\<close> returns: the keyword arguments given to the constructor of the
  model class, and the \<^verbatim>\<open>type\<close> attribute set afterwards. The model class
  (\<^verbatim>\<open>cl.search.models.Citation\<close>), the reporter table \<^verbatim>\<open>REPORTERS\<close> of the package
  \<^verbatim>\<open>reporters_db\<close> and \<^verbatim>\<open>map_reporter_db_cite_type\<close> live outside this module; the model's
  field names, the table and the mapping are parameters.
\<close>

record 't model_citation =
  mc_kwargs :: "(string \<times> pyval) list"
  mc_type :: "'t option"

definition to_model ::
    "string list \<Rightarrow> (string \<rightharpoonup> (string \<rightharpoonup> 'ct) list) \<Rightarrow> ('ct \<Rightarrow> py_error + 't) \<Rightarrow> cite
       \<Rightarrow> py_error + 't model_citation" where
  "to_model field_names REPORTERS map_reporter_db_cite_type c =
     (let m = \<lparr> mc_kwargs = filter (\<lambda>(key, val). key \<in> set field_names) (dict_items c),
                mc_type = None \<rparr>
      in case canonical_reporter (attrs c) of
           None \<Rightarrow> Inl KeyError
         | Some cr \<Rightarrow>
             (case REPORTERS cr of
                None \<Rightarrow> Inl KeyError
              | Some canon \<Rightarrow>
                  (case list_getitem canon (lookup_index (attrs c)) of
                     Inl e \<Rightarrow> Inl e
                   | Inr entry \<Rightarrow>
                       (case entry ''cite_type'' of
                          None \<Rightarrow> Inl KeyError
                        | Some cite_type \<Rightarrow>
                            (case map_reporter_db_cite_type cite_type of
                               Inl e \<Rightarrow> Inl e
                             | Inr t \<Rightarrow> Inr (m\<lparr>mc_type := Some t\<rparr>))))))"

text \<open>Whether \<^verbatim>\<open>self.canonical_reporter\<close> is a key of the reporter table.\<close>

definition known_reporter :: "(string \<rightharpoonup> 'v) \<Rightarrow> cite \<Rightarrow> bool" where
  "known_reporter REPORTERS c =
     (case canonical_reporter (attrs c) of None \<Rightarrow> False | Some cr \<Rightarrow> REPORTERS cr \<noteq> None)"

section \<open>Pattern generation and rendering\<close>

subsection \<open>The library function re.escape\<close>

text \<open>
  \<^verbatim>\<open>re.escape\<close> of the Python 3 standard library (3.7 and later) puts a backslash before
  each of the characters \<^verbatim>\<open>()[]{}?*+-|^$\.&~#\<close>, the space, and tab, newline, carriage
  return, vertical tab and form feed; every other character is left alone. Given None it
  raises TypeError.
\<close>

definition special_chars :: "char list" where
  "special_chars = ''()[]{}?*+-|^$'' @ [bs] @ ''.&~# '' @
     [CHR 0x09, CHR 0x0A, CHR 0x0D, CHR 0x0B, CHR 0x0C]"

definition escape_char :: "char \<Rightarrow> string" where
  "escape_char c = (if c \<in> set special_chars then [bs, c] else [c])"

definition re_escape :: "string \<Rightarrow> string" where
  "re_escape s = concat (map escape_char s)"

text \<open>\<^verbatim>\<open>sep.join(xs)\<close>.\<close>

fun join :: "string \<Rightarrow> string list \<Rightarrow> string" where
  "join sep [] = []"
| "join sep [x] = x"
| "join sep (x # y # ys) = x @ sep @ join sep (y # ys)"

subsection \<open>as_regex\<close>

text \<open>The capture groups the patterns are assembled from: \<^verbatim>\<open>(\s+)\<close>, \<^verbatim>\<open>(\s?)\<close>, \<^verbatim>\<open>(,?)\<close>
  and the \<^verbatim>\<open>whitespace_regex\<close> of id citations, \<^verbatim>\<open>((?:\s|</?\w+>|,)*)\<close>.\<close>

definition ws_plus :: string where
  "ws_plus = ''('' @ [bs] @ ''s+)''"

definition ws_opt :: string where
  "ws_opt = ''('' @ [bs] @ ''s?)''"

definition comma_opt :: string where
  "comma_opt = ''(,?)''"

definition whitespace_regex :: string where
  "whitespace_regex = ''((?:'' @ [bs] @ ''s|</?'' @ [bs] @ ''w+>|,)*)''"

text \<open>
  Each method formats its template with \<^verbatim>\<open>%\<close>; \<^verbatim>\<open>%d\<close> of a missing volume and
  \<^verbatim>\<open>re.escape\<close> of a missing string both raise TypeError. \<^verbatim>\<open>SupraCitation.as_regex\<close>
  tests volume and page for truth before it uses them.
\<close>

definition supra_head_regex :: "citation \<Rightarrow> string \<Rightarrow> string" where
  "supra_head_regex a guess =
     (case volume a of
        None \<Rightarrow> re_escape guess @ ws_plus @ ''supra''
      | Some v \<Rightarrow>
          if v \<noteq> 0 then re_escape guess @ ws_plus @ str_int v @ ws_plus @ ''supra''
          else re_escape guess @ ws_plus @ ''supra'')"

definition supra_page_regex :: "citation \<Rightarrow> string" where
  "supra_page_regex a =
     (case page a of
        None \<Rightarrow> []
      | Some p \<Rightarrow> if p \<noteq> [] then '','' @ ws_plus @ ''at'' @ ws_plus @ re_escape p else [])"

fun as_regex :: "cite \<Rightarrow> py_error + string" where
  "as_regex (FullCitation a) =
     (case (volume a, reporter_found a, page a) of
        (Some v, Some rf, Some p) \<Rightarrow>
          Inr (str_int v @ ws_plus @ re_escape rf @ ws_plus @ re_escape p @ ws_opt)
      | _ \<Rightarrow> Inl TypeError)"
| "as_regex (ShortformCitation a guess) =
     (case (volume a, reporter_found a, page a) of
        (Some v, Some rf, Some p) \<Rightarrow>
          Inr (re_escape guess @ ws_plus @ str_int v @ ws_plus @ re_escape rf @ comma_opt
               @ ws_plus @ ''at'' @ ws_plus @ re_escape p @ ws_opt)
      | _ \<Rightarrow> Inl TypeError)"
| "as_regex (SupraCitation a guess) =
     Inr (supra_head_regex a guess @ supra_page_regex a @ ws_opt)"
| "as_regex (IdCitation a id_token after_tokens should_linkify) =
     (case (id_token, after_tokens) of
        (Some tok, Some ts) \<Rightarrow>
          Inr (whitespace_regex @ re_escape tok @ whitespace_regex
               @ join whitespace_regex (map re_escape ts) @ ws_opt)
      | _ \<Rightarrow> Inl TypeError)"

subsection \<open>as_html\<close>

text \<open>The pieces of markup the templates are written with: a quoted attribute, a span
  with a class, and the backreference \<^verbatim>\<open>\g<n>\<close> of a replacement template.\<close>

definition attr :: "string \<Rightarrow> string \<Rightarrow> string" where
  "attr name val = name @ ''='' @ [dq] @ val @ [dq]"

definition span :: "string \<Rightarrow> string \<Rightarrow> string" where
  "span cls body = ''<span '' @ attr ''class'' cls @ ''>'' @ body @ ''</span>''"

definition gref :: "nat \<Rightarrow> string" where
  "gref n = [bs] @ ''g<'' @ str_nat n @ ''>''"

text \<open>
  The block every \<^verbatim>\<open>as_html\<close> shares: with a true \<^verbatim>\<open>match_url\<close> the class is
  \<^verbatim>\<open>citation\<close> and the data attribute carries \<^verbatim>\<open>match_id\<close>; otherwise the class is
  \<^verbatim>\<open>citation no-link\<close> and there is no data attribute.
\<close>

definition span_class :: "citation \<Rightarrow> string" where
  "span_class a = (if truthy_str (match_url a) then ''citation'' else ''citation no-link'')"

definition data_attr :: "citation \<Rightarrow> string" where
  "data_attr a =
     (if truthy_str (match_url a) then '' '' @ attr ''data-id'' (str_of_int (match_id a)) else [])"

definition anchor :: "string \<Rightarrow> string \<Rightarrow> string" where
  "anchor url body = ''<a '' @ attr ''href'' url @ ''>'' @ body @ ''</a>''"

definition link :: "citation \<Rightarrow> string \<Rightarrow> string" where
  "link a inner_html =
     (if truthy_str (match_url a) then anchor (str_of_str (match_url a)) inner_html
      else inner_html)"

definition outer_span :: "citation \<Rightarrow> string \<Rightarrow> string" where
  "outer_span a body =
     ''<span '' @ attr ''class'' (span_class a) @ data_attr a @ ''>'' @ body @ ''</span>''"

definition full_inner_html :: "citation \<Rightarrow> int \<Rightarrow> string" where
  "full_inner_html a v =
     span ''volume'' (str_int v) @ gref 1
     @ span ''reporter'' (str_of_str (reporter a)) @ gref 2
     @ span ''page'' (str_of_str (page a)) @ gref 3"

definition shortform_inner_html :: "citation \<Rightarrow> int \<Rightarrow> string" where
  "shortform_inner_html a v =
     span ''volume'' (str_int v) @ gref 2
     @ span ''reporter'' (str_of_str (reporter a)) @ gref 3 @ gref 4 @ ''at'' @ gref 5
     @ span ''page'' (str_of_str (page a)) @ gref 6"

definition supra_inner_html :: "citation \<Rightarrow> string \<Rightarrow> string" where
  "supra_inner_html a guess =
     span ''antecedent_guess'' guess @
     (if truthy_int (volume a) then
        gref 1 @ span ''volume'' (str_of_int (volume a)) @ gref 2 @ ''supra'' @
        (if truthy_str (page a) then
           '','' @ gref 3 @ ''at'' @ gref 4 @ span ''page'' (str_of_str (page a)) @ gref 5
         else gref 3)
      else
        gref 1 @ ''supra'' @
        (if truthy_str (page a) then
           '','' @ gref 2 @ ''at'' @ gref 3 @ span ''page'' (str_of_str (page a)) @ gref 4
         else gref 2))"

text \<open>\<^verbatim>\<open>IdCitation.generate_after_token_html\<close>: a backreference before each after-token,
  numbered from 2, and one more after the last.\<close>

definition generate_after_token_html :: "string list \<Rightarrow> string" where
  "generate_after_token_html ts =
     concat (map (\<lambda>(i, t). gref (i + 2) @ t) (enumerate 0 ts)) @ gref (length ts + 2)"

definition id_string :: "citation \<Rightarrow> string option \<Rightarrow> string list \<Rightarrow> bool \<Rightarrow> string" where
  "id_string a id_token ts should_linkify =
     (if truthy_str (match_url a) then
        (if should_linkify then
           anchor (str_of_str (match_url a))
             (span ''id_token'' (str_of_str id_token) @ generate_after_token_html ts)
         else
           anchor (str_of_str (match_url a)) (span ''id_token'' (str_of_str id_token))
           @ generate_after_token_html ts)
      else span ''id_token'' (str_of_str id_token) @ generate_after_token_html ts)"

fun as_html :: "cite \<Rightarrow> py_error + string" where
  "as_html (FullCitation a) =
     (case volume a of
        None \<Rightarrow> Inl TypeError
      | Some v \<Rightarrow> Inr (outer_span a (link a (full_inner_html a v))))"
| "as_html (ShortformCitation a guess) =
     (case volume a of
        None \<Rightarrow> Inl TypeError
      | Some v \<Rightarrow>
          Inr (outer_span a
                 (span ''antecedent_guess'' guess @ gref 1 @ link a (shortform_inner_html a v))))"
| "as_html (SupraCitation a guess) = Inr (outer_span a (link a (supra_inner_html a guess)))"
| "as_html (IdCitation a id_token after_tokens should_linkify) =
     (case after_tokens of
        None \<Rightarrow> Inl TypeError
      | Some ts \<Rightarrow> Inr (outer_span a (gref 1 @ id_string a id_token ts should_linkify)))"

subsection \<open>Vocabulary for the properties of the markup\<close>




section \<open>A model of the regular expressions of the patterns\<close>

text \<open>
  The patterns are handed to Python's \<^verbatim>\<open>re\<close> module. The part of its syntax that
  \<^verbatim>\<open>as_regex\<close> writes is modelled here: literal characters, a backslash before a
  character, the classes \<^verbatim>\<open>\s\<close>, \<^verbatim>\<open>\w\<close> and \<^verbatim>\<open>\d\<close>, capturing groups, groups
  \<^verbatim>\<open>(?:...)\<close> that capture nothing, alternation, and the postfix operators \<^verbatim>\<open>*\<close>,
  \<^verbatim>\<open>+\<close> and \<^verbatim>\<open>?\<close>. A pattern that uses anything else does not parse. Characters are
  the 7-bit ones; a character from 128 on is in no class.
\<close>

subsection \<open>Character classes\<close>

datatype cclass = Space | Word | Digit






subsection \<open>Tokens\<close>

text \<open>A backslash before a letter or digit names a class or is outside the model; before
  any other character it makes that character literal.\<close>

datatype tok = TChar char | TClass cclass | TOpen | TOpenNC | TClose | TBar
  | TStar | TPlus | TQuest | TBad




subsection \<open>Syntax trees\<close>














subsection \<open>Matching\<close>


inductive_set star :: "string set \<Rightarrow> string set" for A :: "string set" where
  star_Nil: "[] \<in> star A"
| star_app: "u \<in> A \<Longrightarrow> v \<in> star A \<Longrightarrow> u @ v \<in> star A"







subsection \<open>The wildcards and what they match\<close>















subsection \<open>The text each kind of citation matches\<close>









section \<open>Properties of the base class\<close>

lemma str_int_515: "str_int 515 = ''515''"
  by (simp add: str_int_def str_nat.simps digit_char_def)

text \<open>
  Claim C3. For a full citation whose volume, reporter and page are present,
  \<^verbatim>\<open>base_citation\<close> returns the decimal volume, the reporter and the page separated by
  single spaces. In particular the full citation built with volume 515, reporter
  \<^verbatim>\<open>U.S.\<close> and page \<^verbatim>\<open>200\<close> yields \<^verbatim>\<open>515 U.S. 200\<close> whatever its keyword arguments
  (year, defendant, plaintiff and the others) are.
\<close>

theorem base_citation_FullCitation:
  "(volume a = Some v \<and> reporter a = Some r \<and> page a = Some p \<longrightarrow>
      base_citation (FullCitation a) = Inr (str_int v @ '' '' @ r @ '' '' @ p))
   \<and> base_citation (FullCitation_init (Some ''U.S.'') (Some ''200'') (Some 515) kw)
       = Inr ''515 U.S. 200''"
  by (simp add: base_citation_def fmt_d_def str_of_str_def FullCitation_init_def
      Citation_init_def str_int_515)

theorem base_citation_FullCitation_witness:
  "volume (Citation_init (Some ''U.S.'') (Some ''200'') (Some 515)
             (no_kwargs\<lparr>kw_defendant := Some ''Constructors, Inc.'', kw_plaintiff := Some ''Adarand'',
                         kw_year := Some 1995\<rparr>)) = Some 515
   \<and> base_citation (FullCitation (Citation_init (Some ''U.S.'') (Some ''200'') (Some 515)
             (no_kwargs\<lparr>kw_defendant := Some ''Constructors, Inc.'', kw_plaintiff := Some ''Adarand'',
                         kw_year := Some 1995\<rparr>))) = Inr ''515 U.S. 200''"
  using base_citation_FullCitation [of
      "Citation_init (Some ''U.S.'') (Some ''200'') (Some 515)
         (no_kwargs\<lparr>kw_defendant := Some ''Constructors, Inc.'', kw_plaintiff := Some ''Adarand'',
                     kw_year := Some 1995\<rparr>)" 515 "''U.S.''" "''200''" no_kwargs]
  by (simp add: Citation_init_def str_int_515)

text \<open>
  Claim C10. \<^verbatim>\<open>base_citation\<close> fails with a TypeError on every id citation, whose
  constructor sets the volume to None, and on every supra citation constructed without
  a volume: \<^verbatim>\<open>%d\<close> needs a number, and neither class overrides the method.
\<close>

theorem base_citation_partial:
  "base_citation (IdCitation_init tok after linkify) = Inl TypeError
   \<and> base_citation (SupraCitation_init guess pg None kw) = Inl TypeError"
  by (simp add: base_citation_def fmt_d_def IdCitation_init_def SupraCitation_init_def
      Citation_init_def)

text \<open>
  Claim C2, as the code has it. Two citations that agree on reporter, volume, page,
  canonical reporter and lookup index are equal under \<^verbatim>\<open>fuzzy_eq\<close>, for every hash
  function and whatever their other attributes are. The converse fails, see
  \<open>fuzzy_eq_counterexample\<close>.
\<close>

theorem fuzzy_eq_identity_fields:
  "reporter (attrs c) = reporter (attrs d) \<Longrightarrow> volume (attrs c) = volume (attrs d) \<Longrightarrow>
   page (attrs c) = page (attrs d) \<Longrightarrow>
   canonical_reporter (attrs c) = canonical_reporter (attrs d) \<Longrightarrow>
   lookup_index (attrs c) = lookup_index (attrs d) \<Longrightarrow> fuzzy_eq h c d"
  by (simp add: fuzzy_eq_def fuzzy_hash_def fuzzy_key_def equality_attributes_def getattr_str_def)

theorem fuzzy_eq_identity_fields_witness:
  "fuzzy_eq (id :: string \<Rightarrow> string)
     (FullCitation_init (Some ''U.S.'') (Some ''200'') (Some 515)
        (no_kwargs\<lparr>kw_court := Some ''scotus'', kw_year := Some 1995,
                    kw_match_url := Some ''/opinion/1/''\<rparr>))
     (FullCitation_init (Some ''U.S.'') (Some ''200'') (Some 515) no_kwargs)"
  using fuzzy_eq_identity_fields [of
      "FullCitation_init (Some ''U.S.'') (Some ''200'') (Some 515)
        (no_kwargs\<lparr>kw_court := Some ''scotus'', kw_year := Some 1995,
                    kw_match_url := Some ''/opinion/1/''\<rparr>)"
      "FullCitation_init (Some ''U.S.'') (Some ''200'') (Some 515) no_kwargs" id]
  by (simp add: FullCitation_init_def Citation_init_def no_kwargs_def)

text \<open>
  The claim's converse fails: the renderings are concatenated with no separator, so
  volume 1 with page \<^verbatim>\<open>23\<close> and volume 12 with page \<^verbatim>\<open>3\<close> give the same key
  \<^verbatim>\<open>U.S.123NoneNone\<close>, and the two citations are equal under \<^verbatim>\<open>fuzzy_eq\<close> even for a
  hash function without collisions.
\<close>

theorem fuzzy_eq_counterexample:
  "fuzzy_eq (id :: string \<Rightarrow> string)
     (FullCitation_init (Some ''U.S.'') (Some ''23'') (Some 1) no_kwargs)
     (FullCitation_init (Some ''U.S.'') (Some ''3'') (Some 12) no_kwargs)
   \<and> volume (attrs (FullCitation_init (Some ''U.S.'') (Some ''23'') (Some 1) no_kwargs))
       \<noteq> volume (attrs (FullCitation_init (Some ''U.S.'') (Some ''3'') (Some 12) no_kwargs))
   \<and> page (attrs (FullCitation_init (Some ''U.S.'') (Some ''23'') (Some 1) no_kwargs))
       \<noteq> page (attrs (FullCitation_init (Some ''U.S.'') (Some ''3'') (Some 12) no_kwargs))"
  by (simp add: fuzzy_eq_def fuzzy_hash_def fuzzy_key_def equality_attributes_def
      getattr_str_def FullCitation_init_def Citation_init_def no_kwargs_def
      str_of_str_def str_of_int_def str_int_def str_nat.simps digit_char_def)

text \<open>
  Claim C4. When the canonical reporter of a citation is not a key of the reporter
  table, \<^verbatim>\<open>to_model\<close> raises KeyError and returns no model object, whatever the model's
  fields and the type mapping are.
\<close>

theorem to_model_unknown_reporter:
  "\<not> known_reporter REPORTERS c \<Longrightarrow> to_model field_names REPORTERS map_type c = Inl KeyError"
  by (simp add: to_model_def known_reporter_def Let_def split: option.splits)

theorem to_model_unknown_reporter_witness:
  "\<not> known_reporter [''F'' \<mapsto> [[''cite_type'' \<mapsto> ''federal'']]]
       (FullCitation_init (Some ''Zzz'') (Some ''1'') (Some 22)
          (no_kwargs\<lparr>kw_canonical_reporter := Some ''Zzz'', kw_lookup_index := Some 0\<rparr>))
   \<and> to_model [''volume'', ''reporter'', ''page'', ''type'']
        [''F'' \<mapsto> [[''cite_type'' \<mapsto> ''federal'']]] (\<lambda>t. Inr (length t))
        (FullCitation_init (Some ''Zzz'') (Some ''1'') (Some 22)
          (no_kwargs\<lparr>kw_canonical_reporter := Some ''Zzz'', kw_lookup_index := Some 0\<rparr>))
      = Inl KeyError"
proof -
  have unknown: "\<not> known_reporter [''F'' \<mapsto> [[''cite_type'' \<mapsto> ''federal'']]]
       (FullCitation_init (Some ''Zzz'') (Some ''1'') (Some 22)
          (no_kwargs\<lparr>kw_canonical_reporter := Some ''Zzz'', kw_lookup_index := Some 0\<rparr>))"
    by (simp add: known_reporter_def FullCitation_init_def Citation_init_def no_kwargs_def)
  from unknown to_model_unknown_reporter [OF unknown] show ?thesis
    by simp
qed

section \<open>Properties of the markup\<close>

lemma gref_small: "gref 1 = [bs] @ ''g<1>''" "gref 2 = [bs] @ ''g<2>''" "gref 3 = [bs] @ ''g<3>''"
  "gref 4 = [bs] @ ''g<4>''" "gref 5 = [bs] @ ''g<5>''" "gref 6 = [bs] @ ''g<6>''"
  by (simp_all add: gref_def str_nat.simps digit_char_def)

lemma digit_char_in: "d < 10 \<Longrightarrow> digit_char d \<in> set ''0123456789''"
  unfolding digit_char_def by (rule nth_mem) simp

lemma str_nat_digits: "set (str_nat n) \<subseteq> set ''0123456789''"
proof (induction n rule: str_nat.induct)
  case (1 n)
  show ?case
  proof (cases "n < 10")
    case True
    then show ?thesis using digit_char_in [of n] by (subst str_nat.simps) simp
  next
    case False
    have "n mod 10 < 10" by simp
    with 1 False digit_char_in [of "n mod 10"] show ?thesis
      by (subst str_nat.simps) simp
  qed
qed






















section \<open>Properties of the patterns\<close>

text \<open>
  Claim C6. The pattern of a full citation is built from the volume, the escaped
  \<^verbatim>\<open>reporter_found\<close> and the escaped page; the normalized \<^verbatim>\<open>reporter\<close> takes no part in it,
  so changing the reporter leaves \<^verbatim>\<open>as_regex\<close> unchanged.
\<close>

theorem FullCitation_as_regex_reporter_found:
  "as_regex (FullCitation (a\<lparr>reporter := r\<rparr>)) = as_regex (FullCitation a)
   \<and> (volume a = Some v \<and> reporter_found a = Some rf \<and> page a = Some p \<longrightarrow>
        as_regex (FullCitation a)
          = Inr (str_int v @ ws_plus @ re_escape rf @ ws_plus @ re_escape p @ ws_opt))"
  by simp

theorem FullCitation_as_regex_reporter_found_witness:
  "as_regex (FullCitation_init (Some ''Cranch'') (Some ''1'') (Some 22)
               (no_kwargs\<lparr>kw_reporter_found := Some ''Cr.''\<rparr>))
     = Inr (''22('' @ [bs] @ ''s+)Cr'' @ [bs] @ ''.('' @ [bs] @ ''s+)1('' @ [bs] @ ''s?)'')
   \<and> as_regex (FullCitation_init (Some ''Cr.'') (Some ''1'') (Some 22)
               (no_kwargs\<lparr>kw_reporter_found := Some ''Cr.''\<rparr>))
     = as_regex (FullCitation_init (Some ''Cranch'') (Some ''1'') (Some 22)
               (no_kwargs\<lparr>kw_reporter_found := Some ''Cr.''\<rparr>))"
  using FullCitation_as_regex_reporter_found [where
      a = "Citation_init (Some ''Cranch'') (Some ''1'') (Some 22)
         (no_kwargs\<lparr>kw_reporter_found := Some ''Cr.''\<rparr>)"
      and r = "Some ''Cr.''" and v = 22 and rf = "''Cr.''" and p = "''1''"]
  by (simp add: FullCitation_init_def Citation_init_def no_kwargs_def ws_plus_def ws_opt_def
      re_escape_def escape_char_def special_chars_def str_int_def str_nat.simps digit_char_def)

section \<open>Where the id citation puts its leading group\<close>

lemma str_of_int_no_gt: "CHR ''>'' \<notin> set (str_of_int x)"
  using str_nat_digits by (auto simp add: str_of_int_def str_int_def split: option.splits)

lemma opening_tag_no_gt: "CHR ''>'' \<notin> set (''<span '' @ attr ''class'' (span_class a) @ data_attr a)"
  using str_of_int_no_gt by (simp add: attr_def span_class_def data_attr_def)

text \<open>
  Claim C8, as the code has it. The markup of an id citation begins with the opening tag
  of the citation span; the backreference to group 1 follows the \<^verbatim>\<open>>\<close> that closes
  that tag, so it is the first thing inside the span, before the markup of the id token.
\<close>

theorem IdCitation_as_html_leading_group:
  "\<exists>tag rest. as_html (IdCitation a id_token (Some ts) should_linkify)
        = Inr (tag @ ''>'' @ [bs] @ ''g<1>'' @ rest @ ''</span>'')
      \<and> prefix (''<span class='' @ [dq] @ ''citation'') tag \<and> CHR ''>'' \<notin> set tag
      \<and> prefix (''<'') rest"
  apply (rule exI [of _ "''<span '' @ attr ''class'' (span_class a) @ data_attr a"])
  apply (rule exI [of _ "id_string a id_token ts should_linkify"])
  using opening_tag_no_gt [of a]
  by (simp add: outer_span_def gref_small id_string_def anchor_def span_def span_class_def attr_def
      del: One_nat_def)

text \<open>
  The claim as stated puts the backreference before the span. On the id citation
  \<^verbatim>\<open>id., at 240\<close> the output begins with \<^verbatim>\<open><span\<close>, not with the backreference.
\<close>

theorem IdCitation_as_html_counterexample:
  "as_html (IdCitation_init (Some ''id.'') (Some [''at'', ''240'']) False)
     = Inr (''<span class='' @ [dq] @ ''citation no-link'' @ [dq] @ ''>'' @ [bs]
            @ ''g<1><span class='' @ [dq] @ ''id_token'' @ [dq] @ ''>id.</span>'' @ [bs]
            @ ''g<2>at'' @ [bs] @ ''g<3>240'' @ [bs] @ ''g<4></span>'')
   \<and> \<not> prefix ([bs] @ ''g<1>'')
         (projr (as_html (IdCitation_init (Some ''id.'') (Some [''at'', ''240'']) False)))"
  by (simp add: IdCitation_init_def Citation_init_def no_kwargs_def outer_span_def span_class_def
      data_attr_def truthy_str_def id_string_def generate_after_token_html_def span_def attr_def
      gref_def str_nat.simps digit_char_def str_of_str_def enumerate_eq_zip)




section \<open>Correctness of the matcher\<close>





lemma star_trans: "u \<in> star A \<Longrightarrow> v \<in> star A \<Longrightarrow> u @ v \<in> star A"
  by (induction rule: star.induct) (auto intro: star.intros)







section \<open>Parsing the patterns\<close>

























section \<open>The languages of the wildcards\<close>




















section \<open>What the patterns match\<close>







































end
